theory Spec2Isabelle
  imports Main "HOL-Library.Word" "HOL-Library.Sublist"
begin

section \<open>Values, exceptions and the HTTP exchange\<close>

text \<open>
  The values the tools handle are what Python's JSON decoder produces, together with the
  strings and the dictionary the tools build themselves. A float is kept as its binary64
  bit pattern: the program never computes with one.
\<close>

datatype pyval =
    PyNone
  | PyBool bool
  | PyInt int
  | PyFloat "64 word"
  | PyStr string
  | PyList "pyval list"
  | PyDict "(string \<times> pyval) list"

text \<open>
  Exceptions, each with the text that \<^verbatim>\<open>str(e)\<close> gives. \<open>HTTPStatusError\<close> and
  \<open>RequestError\<close> are the two families below \<^verbatim>\<open>httpx.HTTPError\<close>: the first is raised by
  \<^verbatim>\<open>raise_for_status\<close>, the second by the client for transport and network failures.
  \<open>OtherException\<close> stands for every exception that is not an \<^verbatim>\<open>httpx.HTTPError\<close>.
\<close>

datatype exn =
    HTTPStatusError string
  | RequestError string
  | OtherException string

fun is_HTTPError :: "exn \<Rightarrow> bool" where
  "is_HTTPError (HTTPStatusError m) = True"
| "is_HTTPError (RequestError m) = True"
| "is_HTTPError (OtherException m) = False"

fun str_exn :: "exn \<Rightarrow> string" where
  "str_exn (HTTPStatusError m) = m"
| "str_exn (RequestError m) = m"
| "str_exn (OtherException m) = m"

record request =
  url :: string
  req_headers :: "(string \<times> string option) list"

text \<open>
  A response as far as the program looks at it: the status code, the message that the
  HTTP library puts into the \<open>HTTPStatusError\<close> of a failing status, and the decoded
  body (\<open>None\<close> when the body is not JSON).
\<close>

record response =
  status_code :: nat
  status_text :: string
  body :: "pyval option"

text \<open>
  \<^verbatim>\<open>client.get(url, headers=headers)\<close> is a parameter of the model: given the requests
  handed to the client so far and the present one, it yields the response or the
  exception raised. It stands for the HTTP library, the network and the remote service.
\<close>

type_synonym client = "request list \<Rightarrow> request \<Rightarrow> exn + response"

text \<open>
  Modelled from the spec: \<^verbatim>\<open>Response.raise_for_status\<close> of the HTTP library, which is not
  part of the repository. The request helper "issues a GET, raises on non-2xx".
\<close>

definition raise_for_status :: "response \<Rightarrow> exn + unit" where
  "raise_for_status r =
     (if 200 \<le> status_code r \<and> status_code r \<le> 299 then Inr ()
      else Inl (HTTPStatusError (status_text r)))"

text \<open>\<^verbatim>\<open>response.json()\<close>: the decoded body, or the decoder's exception.\<close>

definition json :: "response \<Rightarrow> exn + pyval" where
  "json r = (case body r of
               None \<Rightarrow> Inl (OtherException ''JSONDecodeError'')
             | Some data \<Rightarrow> Inr data)"

section \<open>Module state\<close>

text \<open>
  The module keeps one global, \<^verbatim>\<open>headers\<close>, built once when the module is loaded.
  \<open>issued\<close> is the observable effect: the requests handed to the client, oldest first.
\<close>

record world =
  headers :: "(string \<times> string option) list"
  issued :: "request list"

definition REJESTR_IO_BASE_API :: string where
  "REJESTR_IO_BASE_API = ''https://rejestr.io/api/v2''"

definition load_module :: "(string \<Rightarrow> string option) \<Rightarrow> world" where
  "load_module getenv =
     \<lparr>headers = [(''Authorization'', getenv ''REJESTR_IO_API_KEY'')], issued = []\<rparr>"

section \<open>The request helper\<close>

definition make_rejestr_io_request :: "client \<Rightarrow> world \<Rightarrow> string \<Rightarrow> (exn + pyval) \<times> world" where
  "make_rejestr_io_request get w endpoint =
     (let rq = \<lparr>url = REJESTR_IO_BASE_API @ ''/'' @ endpoint, req_headers = headers w\<rparr>;
          w' = w\<lparr>issued := issued w @ [rq]\<rparr>
      in case get (issued w) rq of
           Inl e \<Rightarrow> (Inl e, w')
         | Inr response \<Rightarrow>
             (case raise_for_status response of
                Inl e \<Rightarrow> (Inl e, w')
              | Inr u \<Rightarrow> (json response, w')))"

section \<open>The tools\<close>

text \<open>
  Each tool returns its value, or the exception that leaves it (\<open>Inl\<close>), and the world
  after the call. \<open>fmt\<close> in \<open>get_token_amount\<close> is Python's conversion of a value to text
  inside an f-string.
\<close>

definition get_token_amount :: "client \<Rightarrow> (pyval \<Rightarrow> string) \<Rightarrow> world \<Rightarrow> (exn + pyval) \<times> world" where
  "get_token_amount get fmt w =
     (case make_rejestr_io_request get w ''konto/stan'' of
        (Inr data, w') \<Rightarrow> (Inr (PyStr (fmt data @ '' PLN'')), w')
      | (Inl e, w') \<Rightarrow>
          if is_HTTPError e then (Inr (PyStr (''An error occurred: '' @ str_exn e)), w')
          else (Inl e, w'))"

definition get_company_info_using_nip :: "client \<Rightarrow> world \<Rightarrow> string \<Rightarrow> (exn + pyval) \<times> world" where
  "get_company_info_using_nip get w nip =
     (case make_rejestr_io_request get w (''org/nip/'' @ nip) of
        (Inr data, w') \<Rightarrow> (Inr data, w')
      | (Inl e, w') \<Rightarrow>
          if is_HTTPError e
          then (Inr (PyDict [(''error'', PyStr (''An error occurred: '' @ str_exn e))]), w')
          else (Inl e, w'))"

definition get_company_info_using_krs :: "client \<Rightarrow> world \<Rightarrow> string \<Rightarrow> (exn + pyval) \<times> world" where
  "get_company_info_using_krs get w krs =
     (case make_rejestr_io_request get w (''org/'' @ krs) of
        (Inr data, w') \<Rightarrow> (Inr data, w')
      | (Inl e, w') \<Rightarrow>
          if is_HTTPError e
          then (Inr (PyDict [(''error'', PyStr (''An error occurred: '' @ str_exn e))]), w')
          else (Inl e, w'))"

definition get_company_info_using_name :: "client \<Rightarrow> world \<Rightarrow> string \<Rightarrow> (exn + pyval) \<times> world" where
  "get_company_info_using_name get w name =
     (case make_rejestr_io_request get w (''org?nazwa='' @ name) of
        (Inr data, w') \<Rightarrow> (Inr data, w')
      | (Inl e, w') \<Rightarrow>
          if is_HTTPError e
          then (Inr (PyDict [(''error'', PyStr (''An error occurred: '' @ str_exn e))]), w')
          else (Inl e, w'))"

definition get_company_krs_documentation ::
    "client \<Rightarrow> world \<Rightarrow> string \<Rightarrow> string \<Rightarrow> (exn + pyval) \<times> world" where
  "get_company_krs_documentation get w krs chapter =
     (case make_rejestr_io_request get w (''org/'' @ krs @ ''/krs-rozdzialy/'' @ chapter) of
        (Inr data, w') \<Rightarrow> (Inr data, w')
      | (Inl e, w') \<Rightarrow>
          if is_HTTPError e
          then (Inr (PyDict [(''error'', PyStr (''An error occurred: '' @ str_exn e))]), w')
          else (Inl e, w'))"

definition get_person_data :: "client \<Rightarrow> world \<Rightarrow> string \<Rightarrow> (exn + pyval) \<times> world" where
  "get_person_data get w ident =
     (case make_rejestr_io_request get w (''osoby/'' @ ident) of
        (Inr data, w') \<Rightarrow> (Inr data, w')
      | (Inl e, w') \<Rightarrow>
          if is_HTTPError e
          then (Inr (PyDict [(''error'', PyStr (''An error occurred: '' @ str_exn e))]), w')
          else (Inl e, w'))"

definition get_beneficiary :: "client \<Rightarrow> world \<Rightarrow> string \<Rightarrow> (exn + pyval) \<times> world" where
  "get_beneficiary get w krs =
     (case make_rejestr_io_request get w (''org/'' @ krs @ ''/crbr'') of
        (Inr data, w') \<Rightarrow> (Inr data, w')
      | (Inl e, w') \<Rightarrow>
          if is_HTTPError e
          then (Inr (PyDict [(''error'', PyStr (''An error occurred: '' @ str_exn e))]), w')
          else (Inl e, w'))"

definition get_connections_by_krs :: "client \<Rightarrow> world \<Rightarrow> string \<Rightarrow> (exn + pyval) \<times> world" where
  "get_connections_by_krs get w krs =
     (case make_rejestr_io_request get w (''org/'' @ krs @ ''/krs-powiazania'') of
        (Inr data, w') \<Rightarrow> (Inr data, w')
      | (Inl e, w') \<Rightarrow>
          if is_HTTPError e
          then (Inr (PyDict [(''error'', PyStr (''An error occurred: '' @ str_exn e))]), w')
          else (Inl e, w'))"

definition get_connections_by_person :: "client \<Rightarrow> world \<Rightarrow> string \<Rightarrow> (exn + pyval) \<times> world" where
  "get_connections_by_person get w ident =
     (case make_rejestr_io_request get w (''osoby/'' @ ident @ ''/krs-powiazania'') of
        (Inr data, w') \<Rightarrow> (Inr data, w')
      | (Inl e, w') \<Rightarrow>
          if is_HTTPError e
          then (Inr (PyDict [(''error'', PyStr (''An error occurred: '' @ str_exn e))]), w')
          else (Inl e, w'))"

definition get_financial_documents :: "client \<Rightarrow> world \<Rightarrow> string \<Rightarrow> (exn + pyval) \<times> world" where
  "get_financial_documents get w krs =
     (case make_rejestr_io_request get w (''org/'' @ krs @ ''/krs-dokumenty'') of
        (Inr data, w') \<Rightarrow> (Inr data, w')
      | (Inl e, w') \<Rightarrow>
          if is_HTTPError e
          then (Inr (PyDict [(''error'', PyStr (''An error occurred: '' @ str_exn e))]), w')
          else (Inl e, w'))"

definition get_financial_statement_in_json ::
    "client \<Rightarrow> world \<Rightarrow> string \<Rightarrow> string \<Rightarrow> (exn + pyval) \<times> world" where
  "get_financial_statement_in_json get w krs doc_id =
     (case make_rejestr_io_request get w
             (''org/'' @ krs @ ''/krs-dokumenty/'' @ doc_id @ ''?format=json'') of
        (Inr data, w') \<Rightarrow> (Inr data, w')
      | (Inl e, w') \<Rightarrow>
          if is_HTTPError e
          then (Inr (PyDict [(''error'', PyStr (''An error occurred: '' @ str_exn e))]), w')
          else (Inl e, w'))"

section \<open>The tool registry\<close>

text \<open>
  The eleven functions registered with \<^verbatim>\<open>@mcp.tool()\<close>, as the host calls them: a tool
  name with its string arguments.
\<close>

datatype invocation =
    GetTokenAmount
  | GetCompanyInfoUsingNip string
  | GetCompanyInfoUsingKrs string
  | GetCompanyInfoUsingName string
  | GetCompanyKrsDocumentation string string
  | GetPersonData string
  | GetBeneficiary string
  | GetConnectionsByKrs string
  | GetConnectionsByPerson string
  | GetFinancialDocuments string
  | GetFinancialStatementInJson string string

fun call_tool :: "client \<Rightarrow> (pyval \<Rightarrow> string) \<Rightarrow> world \<Rightarrow> invocation \<Rightarrow> (exn + pyval) \<times> world" where
  "call_tool get fmt w GetTokenAmount = get_token_amount get fmt w"
| "call_tool get fmt w (GetCompanyInfoUsingNip nip) = get_company_info_using_nip get w nip"
| "call_tool get fmt w (GetCompanyInfoUsingKrs krs) = get_company_info_using_krs get w krs"
| "call_tool get fmt w (GetCompanyInfoUsingName name) = get_company_info_using_name get w name"
| "call_tool get fmt w (GetCompanyKrsDocumentation krs chapter) =
     get_company_krs_documentation get w krs chapter"
| "call_tool get fmt w (GetPersonData ident) = get_person_data get w ident"
| "call_tool get fmt w (GetBeneficiary krs) = get_beneficiary get w krs"
| "call_tool get fmt w (GetConnectionsByKrs krs) = get_connections_by_krs get w krs"
| "call_tool get fmt w (GetConnectionsByPerson ident) = get_connections_by_person get w ident"
| "call_tool get fmt w (GetFinancialDocuments krs) = get_financial_documents get w krs"
| "call_tool get fmt w (GetFinancialStatementInJson krs doc_id) =
     get_financial_statement_in_json get w krs doc_id"

text \<open>A session: the host calls tools one after the other on the loaded module.\<close>

fun run_tools :: "client \<Rightarrow> (pyval \<Rightarrow> string) \<Rightarrow> world \<Rightarrow> invocation list \<Rightarrow> world" where
  "run_tools get fmt w [] = w"
| "run_tools get fmt w (i # is) = run_tools get fmt (snd (call_tool get fmt w i)) is"

section \<open>The endpoint table of the specification\<close>

text \<open>
  The table of operations and templates in the specification (section 4.2), written
  from its words, to be compared with what the tools above request.
\<close>

fun template :: "invocation \<Rightarrow> string" where
  "template GetTokenAmount = ''konto/stan''"
| "template (GetCompanyInfoUsingNip nip) = ''org/nip/'' @ nip"
| "template (GetCompanyInfoUsingKrs krs) = ''org/'' @ krs"
| "template (GetCompanyInfoUsingName name) = ''org?nazwa='' @ name"
| "template (GetCompanyKrsDocumentation krs chapter) = ''org/'' @ krs @ ''/krs-rozdzialy/'' @ chapter"
| "template (GetPersonData ident) = ''osoby/'' @ ident"
| "template (GetBeneficiary krs) = ''org/'' @ krs @ ''/crbr''"
| "template (GetConnectionsByKrs krs) = ''org/'' @ krs @ ''/krs-powiazania''"
| "template (GetConnectionsByPerson ident) = ''osoby/'' @ ident @ ''/krs-powiazania''"
| "template (GetFinancialDocuments krs) = ''org/'' @ krs @ ''/krs-dokumenty''"
| "template (GetFinancialStatementInJson krs doc_id) =
     ''org/'' @ krs @ ''/krs-dokumenty/'' @ doc_id @ ''?format=json''"

section \<open>Reading an exchange\<close>

text \<open>
  Two readings of what the client did with a request, used to state the properties.
  A remote failure is a network error (the client raises an \<^verbatim>\<open>httpx.HTTPError\<close>) or a
  response whose status is not 2xx; \<open>failure_details\<close> gives the text of the error then.
  A successful response is a 2xx response; \<open>success_body\<close> gives its decoded body.
\<close>

fun failure_details :: "exn + response \<Rightarrow> string option" where
  "failure_details (Inl e) = (if is_HTTPError e then Some (str_exn e) else None)"
| "failure_details (Inr r) =
     (if 200 \<le> status_code r \<and> status_code r \<le> 299 then None else Some (status_text r))"

fun success_body :: "exn + response \<Rightarrow> pyval option" where
  "success_body (Inl e) = None"
| "success_body (Inr r) =
     (if 200 \<le> status_code r \<and> status_code r \<le> 299 then body r else None)"

text \<open>
  The parts of a URL as a server reads them: the path before the first \<open>?\<close> cut at
  each \<open>/\<close>, and the query after it cut at each \<open>&\<close>.
\<close>

fun split_on :: "char \<Rightarrow> string \<Rightarrow> string list" where
  "split_on c [] = [] # []"
| "split_on c (x # xs) =
     (if x = c then [] # split_on c xs
      else (case split_on c xs of
              [] \<Rightarrow> [x] # []
            | p # ps \<Rightarrow> (x # p) # ps))"

definition path_segments :: "string \<Rightarrow> string list" where
  "path_segments u = split_on (CHR ''/'') (takeWhile (\<lambda>x. x \<noteq> CHR ''?'') u)"

definition query_parameters :: "string \<Rightarrow> string list" where
  "query_parameters u = split_on (CHR ''&'') (drop 1 (dropWhile (\<lambda>x. x \<noteq> CHR ''?'') u))"

section \<open>Sample environments and clients\<close>

text \<open>Concrete surroundings on which the properties below are exercised.\<close>

definition env_with_key :: "string \<Rightarrow> string option" where
  "env_with_key name = (if name = ''REJESTR_IO_API_KEY'' then Some ''secret'' else None)"

definition env_without_key :: "string \<Rightarrow> string option" where
  "env_without_key name = None"

text \<open>Python's text of a value, on the values the examples use: strings and \<open>None\<close>.\<close>

definition fmt_sample :: "pyval \<Rightarrow> string" where
  "fmt_sample v = (case v of PyStr s \<Rightarrow> s | PyNone \<Rightarrow> ''None'' | _ \<Rightarrow> [])"

text \<open>A network that is down: every request ends in a connection error.\<close>

definition offline :: client where
  "offline hist rq = Inl (RequestError ''All connection attempts failed'')"

text \<open>A service that answers every request with the same status, text and body.\<close>

definition answering :: "nat \<Rightarrow> string \<Rightarrow> pyval option \<Rightarrow> client" where
  "answering code text b hist rq = Inr \<lparr>status_code = code, status_text = text, body = b\<rparr>"

text \<open>A service that answers 200 with the requested URL as its body.\<close>

definition echo :: client where
  "echo hist rq = Inr \<lparr>status_code = 200, status_text = ''OK'', body = Some (PyStr (url rq))\<rparr>"

text \<open>
  A client that refuses a header without a value before anything is sent, with an
  exception that is not an \<^verbatim>\<open>httpx.HTTPError\<close>, and otherwise gets 200 with an empty
  object. This is how the HTTP library treats a header value that is neither text nor
  bytes.
\<close>

definition strict_client :: client where
  "strict_client hist rq =
     (if None \<in> set (map snd (req_headers rq))
      then Inl (OtherException ''TypeError: Header value must be str or bytes'')
      else Inr \<lparr>status_code = 200, status_text = ''OK'', body = Some (PyDict [])\<rparr>)"

section \<open>What the helper does with one request\<close>

lemma helper_issued:
  "issued (snd (make_rejestr_io_request get w endpoint)) =
     issued w @ [\<lparr>url = REJESTR_IO_BASE_API @ ''/'' @ endpoint, req_headers = headers w\<rparr>]"
  by (simp add: make_rejestr_io_request_def Let_def split: sum.split)

lemma helper_headers:
  "headers (snd (make_rejestr_io_request get w endpoint)) = headers w"
  by (simp add: make_rejestr_io_request_def Let_def split: sum.split)

lemma helper_result:
  "fst (make_rejestr_io_request get w endpoint) =
     (case get (issued w)
             \<lparr>url = REJESTR_IO_BASE_API @ ''/'' @ endpoint, req_headers = headers w\<rparr> of
        Inl e \<Rightarrow> Inl e
      | Inr r \<Rightarrow> (case raise_for_status r of Inl e \<Rightarrow> Inl e | Inr u \<Rightarrow> json r))"
  by (simp add: make_rejestr_io_request_def Let_def split: sum.split)

lemmas tool_defs =
  get_token_amount_def get_company_info_using_nip_def get_company_info_using_krs_def
  get_company_info_using_name_def get_company_krs_documentation_def get_person_data_def
  get_beneficiary_def get_connections_by_krs_def get_connections_by_person_def
  get_financial_documents_def get_financial_statement_in_json_def

lemma call_tool_world:
  "snd (call_tool get fmt w i) = snd (make_rejestr_io_request get w (template i))"
  by (cases i) (simp_all add: tool_defs split: prod.split sum.split)

lemma call_tool_issued:
  "issued (snd (call_tool get fmt w i)) =
     issued w @ [\<lparr>url = REJESTR_IO_BASE_API @ ''/'' @ template i, req_headers = headers w\<rparr>]"
  by (simp add: call_tool_world helper_issued)

lemma call_tool_headers: "headers (snd (call_tool get fmt w i)) = headers w"
  by (simp add: call_tool_world helper_headers)

lemma run_tools_headers: "headers (run_tools get fmt w is) = headers w"
  by (induction "is" arbitrary: w) (simp_all add: call_tool_headers)

lemma run_tools_issued:
  "issued (run_tools get fmt w is) =
     issued w @ map (\<lambda>i. \<lparr>url = REJESTR_IO_BASE_API @ ''/'' @ template i,
                          req_headers = headers w\<rparr>) is"
  by (induction "is" arbitrary: w) (simp_all add: call_tool_issued call_tool_headers)

lemma call_tool_result:
  "fst (call_tool get fmt w i) =
     (case fst (make_rejestr_io_request get w (template i)) of
        Inr data \<Rightarrow> Inr (if i = GetTokenAmount then PyStr (fmt data @ '' PLN'') else data)
      | Inl e \<Rightarrow>
          if is_HTTPError e
          then Inr (if i = GetTokenAmount then PyStr (''An error occurred: '' @ str_exn e)
                    else PyDict [(''error'', PyStr (''An error occurred: '' @ str_exn e))])
          else Inl e)"
  by (cases i) (simp_all add: tool_defs split: prod.split sum.split)

lemma helper_failure:
  "failure_details (get (issued w)
       \<lparr>url = REJESTR_IO_BASE_API @ ''/'' @ endpoint, req_headers = headers w\<rparr>) = Some d \<Longrightarrow>
   \<exists>e. fst (make_rejestr_io_request get w endpoint) = Inl e \<and> is_HTTPError e \<and> str_exn e = d"
  by (auto simp: helper_result raise_for_status_def split: sum.splits if_splits)

lemma helper_success:
  "success_body (get (issued w)
       \<lparr>url = REJESTR_IO_BASE_API @ ''/'' @ endpoint, req_headers = headers w\<rparr>) = Some data \<Longrightarrow>
   fst (make_rejestr_io_request get w endpoint) = Inr data"
  by (auto simp: helper_result raise_for_status_def json_def split: sum.splits if_splits)

lemma call_tool_on_failure:
  assumes "failure_details (get (issued w)
       \<lparr>url = REJESTR_IO_BASE_API @ ''/'' @ template i, req_headers = headers w\<rparr>) = Some d"
  shows "fst (call_tool get fmt w i) =
     Inr (if i = GetTokenAmount then PyStr (''An error occurred: '' @ d)
          else PyDict [(''error'', PyStr (''An error occurred: '' @ d))])"
proof -
  obtain e where "fst (make_rejestr_io_request get w (template i)) = Inl e"
      and "is_HTTPError e" and "str_exn e = d"
    using assms helper_failure [of get w "template i" d] by blast
  then show ?thesis
    by (simp add: call_tool_result)
qed

lemma call_tool_on_success:
  "success_body (get (issued w)
       \<lparr>url = REJESTR_IO_BASE_API @ ''/'' @ template i, req_headers = headers w\<rparr>) = Some J \<Longrightarrow>
   fst (call_tool get fmt w i) =
     Inr (if i = GetTokenAmount then PyStr (fmt J @ '' PLN'') else J)"
  by (simp add: call_tool_result helper_success)

lemma call_tool_on_other_exception:
  "get (issued w)
       \<lparr>url = REJESTR_IO_BASE_API @ ''/'' @ template i, req_headers = headers w\<rparr> = Inl e \<Longrightarrow>
   \<not> is_HTTPError e \<Longrightarrow> fst (call_tool get fmt w i) = Inl e"
  by (simp add: call_tool_result helper_result)

lemma call_tool_returns:
  assumes "fst (call_tool get fmt w i) = Inr v"
  shows "(\<exists>J. success_body (get (issued w)
              \<lparr>url = REJESTR_IO_BASE_API @ ''/'' @ template i, req_headers = headers w\<rparr>) = Some J
            \<and> v = (if i = GetTokenAmount then PyStr (fmt J @ '' PLN'') else J))
       \<or> (\<exists>d. failure_details (get (issued w)
              \<lparr>url = REJESTR_IO_BASE_API @ ''/'' @ template i, req_headers = headers w\<rparr>) = Some d
            \<and> v = (if i = GetTokenAmount then PyStr (''An error occurred: '' @ d)
                   else PyDict [(''error'', PyStr (''An error occurred: '' @ d))]))"
proof (cases "get (issued w)
              \<lparr>url = REJESTR_IO_BASE_API @ ''/'' @ template i, req_headers = headers w\<rparr>")
  case (Inl e)
  with assms show ?thesis
    by (auto simp: call_tool_result helper_result split: if_splits)
next
  case (Inr r)
  with assms show ?thesis
    by (auto simp: call_tool_result helper_result raise_for_status_def json_def
             split: if_splits option.splits)
qed

lemmas sample_defs =
  env_with_key_def env_without_key_def fmt_sample_def offline_def answering_def echo_def
  strict_client_def load_module_def REJESTR_IO_BASE_API_def

section \<open>Remote failures\<close>

text \<open>
  Claim C1, as the code has it. Whenever the remote call fails (the client raises an
  \<^verbatim>\<open>httpx.HTTPError\<close> for a network error, or the response has a status that is not 2xx),
  every tool returns a value and raises nothing. For the ten tools other than the balance
  check the value is the mapping \<^verbatim>\<open>{"error": "An error occurred: {details}"}\<close>; the balance
  check \<open>get_token_amount\<close> returns the bare string \<^verbatim>\<open>"An error occurred: {details}"\<close>, as its
  docstring and its return type \<^verbatim>\<open>str\<close> say. \<open>details\<close> is the text of the underlying error.
\<close>

theorem tool_remote_failure:
  "failure_details (get (issued w)
       \<lparr>url = REJESTR_IO_BASE_API @ ''/'' @ template i, req_headers = headers w\<rparr>) = Some d \<Longrightarrow>
   fst (call_tool get fmt w i) =
     Inr (if i = GetTokenAmount then PyStr (''An error occurred: '' @ d)
          else PyDict [(''error'', PyStr (''An error occurred: '' @ d))])"
  by (rule call_tool_on_failure)

text \<open>
  The theorem at work: a tax-number lookup while the network is down, and a balance check
  answered with status 404.
\<close>

theorem tool_remote_failure_witness:
  "failure_details (offline (issued (load_module env_with_key))
       \<lparr>url = REJESTR_IO_BASE_API @ ''/'' @ template (GetCompanyInfoUsingNip ''1234567890''),
          req_headers = headers (load_module env_with_key)\<rparr>) = Some ''All connection attempts failed''
   \<and> fst (call_tool offline fmt_sample (load_module env_with_key)
            (GetCompanyInfoUsingNip ''1234567890'')) =
       Inr (PyDict [(''error'', PyStr ''An error occurred: All connection attempts failed'')])
   \<and> fst (call_tool (answering 404 ''Client error 404 Not Found'' None) fmt_sample
            (load_module env_with_key) GetTokenAmount) =
       Inr (PyStr ''An error occurred: Client error 404 Not Found'')"
  using tool_remote_failure [of offline "load_module env_with_key"
          "GetCompanyInfoUsingNip ''1234567890''" "''All connection attempts failed''" fmt_sample]
        tool_remote_failure [of "answering 404 ''Client error 404 Not Found'' None"
          "load_module env_with_key" GetTokenAmount "''Client error 404 Not Found''" fmt_sample]
  by (simp add: offline_def answering_def)

text \<open>
  Claim C1 as it is written fails at the balance check: with the network down the remote
  call fails, and \<open>get_token_amount\<close> returns a string, not the mapping with the key
  \<^verbatim>\<open>error\<close>.
\<close>

theorem balance_failure_counterexample:
  "failure_details (offline (issued (load_module env_with_key))
       \<lparr>url = REJESTR_IO_BASE_API @ ''/'' @ ''konto/stan'',
          req_headers = headers (load_module env_with_key)\<rparr>) = Some ''All connection attempts failed''
   \<and> fst (get_token_amount offline fmt_sample (load_module env_with_key)) =
       Inr (PyStr ''An error occurred: All connection attempts failed'')
   \<and> fst (get_token_amount offline fmt_sample (load_module env_with_key)) \<noteq>
       Inr (PyDict [(''error'', PyStr ''An error occurred: All connection attempts failed'')])"
  by (simp add: get_token_amount_def make_rejestr_io_request_def Let_def sample_defs)

section \<open>Successful responses\<close>

text \<open>
  Claim C2. When the remote call succeeds with the decoded body \<open>J\<close>, every tool except the
  balance check returns \<open>J\<close> itself, and \<open>get_token_amount\<close> returns the string made of the
  text of \<open>J\<close> followed by \<^verbatim>\<open>" PLN"\<close>.
\<close>

theorem tool_success:
  "success_body (get (issued w)
       \<lparr>url = REJESTR_IO_BASE_API @ ''/'' @ template i, req_headers = headers w\<rparr>) = Some J \<Longrightarrow>
   fst (call_tool get fmt w i) =
     Inr (if i = GetTokenAmount then PyStr (fmt J @ '' PLN'') else J)"
  by (rule call_tool_on_success)

text \<open>
  The theorem at work: a registry lookup answered with an object, and a balance check
  answered with the text \<^verbatim>\<open>100.50\<close>.
\<close>

theorem tool_success_witness:
  "success_body (answering 200 ''OK'' (Some (PyDict [(''id'', PyInt 12345)]))
       (issued (load_module env_with_key))
       \<lparr>url = REJESTR_IO_BASE_API @ ''/'' @ template (GetCompanyInfoUsingKrs ''12345''),
          req_headers = headers (load_module env_with_key)\<rparr>) = Some (PyDict [(''id'', PyInt 12345)])
   \<and> fst (call_tool (answering 200 ''OK'' (Some (PyDict [(''id'', PyInt 12345)]))) fmt_sample
            (load_module env_with_key) (GetCompanyInfoUsingKrs ''12345'')) =
       Inr (PyDict [(''id'', PyInt 12345)])
   \<and> fst (call_tool (answering 200 ''OK'' (Some (PyStr ''100.50''))) fmt_sample
            (load_module env_with_key) GetTokenAmount) =
       Inr (PyStr ''100.50 PLN'')"
  using tool_success [of "answering 200 ''OK'' (Some (PyDict [(''id'', PyInt 12345)]))"
          "load_module env_with_key" "GetCompanyInfoUsingKrs ''12345''"
          "PyDict [(''id'', PyInt 12345)]" fmt_sample]
        tool_success [of "answering 200 ''OK'' (Some (PyStr ''100.50''))"
          "load_module env_with_key" GetTokenAmount "PyStr ''100.50''" fmt_sample]
  by (simp add: answering_def fmt_sample_def)

section \<open>The outbound request\<close>

text \<open>
  Claim C3. For every endpoint string the helper hands exactly one request to the client:
  its URL is the base address, one \<open>/\<close> and the endpoint, and its headers are the module's
  \<^verbatim>\<open>headers\<close>. Over a whole session on the freshly loaded module, the requests issued are,
  call by call, the base address joined to the tool's endpoint, each carrying the
  credential read from the environment as its \<^verbatim>\<open>Authorization\<close> header.
\<close>

theorem request_target_and_credential:
  "issued (snd (make_rejestr_io_request get w endpoint)) =
     issued w @ [\<lparr>url = ''https://rejestr.io/api/v2'' @ ''/'' @ endpoint, req_headers = headers w\<rparr>]
   \<and> issued (run_tools get fmt (load_module getenv) is) =
       map (\<lambda>i. \<lparr>url = ''https://rejestr.io/api/v2'' @ ''/'' @ template i,
                   req_headers = [(''Authorization'', getenv ''REJESTR_IO_API_KEY'')]\<rparr>) is"
  using helper_issued [of get w endpoint] run_tools_issued [of get fmt "load_module getenv" "is"]
  by (simp add: REJESTR_IO_BASE_API_def load_module_def)

section \<open>Endpoints of single tools\<close>

text \<open>
  Claim C5. \<open>get_company_info_using_krs\<close> requests the endpoint \<^verbatim>\<open>org/{krs}\<close> with the
  argument as given: \<^verbatim>\<open>0000012345\<close> gives \<^verbatim>\<open>org/0000012345\<close> and \<^verbatim>\<open>12345\<close> gives
  \<^verbatim>\<open>org/12345\<close>, with no zeros added or removed.
\<close>

theorem krs_endpoint_verbatim:
  "issued (snd (get_company_info_using_krs get w krs)) =
     issued w @ [\<lparr>url = REJESTR_IO_BASE_API @ ''/'' @ ''org/'' @ krs, req_headers = headers w\<rparr>]
   \<and> map url (issued (snd (get_company_info_using_krs get (load_module getenv) ''0000012345''))) =
       [''https://rejestr.io/api/v2/org/0000012345'']
   \<and> map url (issued (snd (get_company_info_using_krs get (load_module getenv) ''12345''))) =
       [''https://rejestr.io/api/v2/org/12345'']"
  using call_tool_issued [of get fmt _ "GetCompanyInfoUsingKrs _"]
  by (simp add: REJESTR_IO_BASE_API_def load_module_def)

text \<open>
  Claim C6. \<open>get_company_krs_documentation\<close> requests \<^verbatim>\<open>org/{krs}/krs-rozdzialy/{chapter}\<close>
  with both arguments as given, whatever the chapter string is: \<^verbatim>\<open>ogolny\<close> gives
  \<^verbatim>\<open>org/{krs}/krs-rozdzialy/ogolny\<close>, and a chapter outside the documented list is sent
  all the same. No chapter is refused locally: when the remote call succeeds the decoded
  body is returned, the error mapping is returned when the remote call fails, and a value
  the tool returns is always one of these two.
\<close>

theorem krs_documentation_endpoint:
  "issued (snd (get_company_krs_documentation get w krs chapter)) =
     issued w @ [\<lparr>url = REJESTR_IO_BASE_API @ ''/'' @ ''org/'' @ krs @ ''/krs-rozdzialy/'' @ chapter,
                   req_headers = headers w\<rparr>]
   \<and> issued (snd (get_company_krs_documentation get w krs ''ogolny'')) =
       issued w @ [\<lparr>url = REJESTR_IO_BASE_API @ ''/'' @ ''org/'' @ krs @ ''/krs-rozdzialy/ogolny'',
                     req_headers = headers w\<rparr>]
   \<and> (success_body (get (issued w)
          \<lparr>url = REJESTR_IO_BASE_API @ ''/'' @ ''org/'' @ krs @ ''/krs-rozdzialy/'' @ chapter,
             req_headers = headers w\<rparr>) = Some J
        \<longrightarrow> fst (get_company_krs_documentation get w krs chapter) = Inr J)
   \<and> (failure_details (get (issued w)
          \<lparr>url = REJESTR_IO_BASE_API @ ''/'' @ ''org/'' @ krs @ ''/krs-rozdzialy/'' @ chapter,
             req_headers = headers w\<rparr>) = Some d
        \<longrightarrow> fst (get_company_krs_documentation get w krs chapter) =
              Inr (PyDict [(''error'', PyStr (''An error occurred: '' @ d))]))
   \<and> (fst (get_company_krs_documentation get w krs chapter) = Inr v
        \<longrightarrow> success_body (get (issued w)
                \<lparr>url = REJESTR_IO_BASE_API @ ''/'' @ ''org/'' @ krs @ ''/krs-rozdzialy/'' @ chapter,
                   req_headers = headers w\<rparr>) = Some v
            \<or> (\<exists>d. failure_details (get (issued w)
                  \<lparr>url = REJESTR_IO_BASE_API @ ''/'' @ ''org/'' @ krs @ ''/krs-rozdzialy/'' @ chapter,
                     req_headers = headers w\<rparr>) = Some d
                 \<and> v = PyDict [(''error'', PyStr (''An error occurred: '' @ d))]))"
proof -
  let ?i = "GetCompanyKrsDocumentation krs chapter"
  have a: "issued (snd (get_company_krs_documentation get w krs ch)) =
     issued w @ [\<lparr>url = REJESTR_IO_BASE_API @ ''/'' @ ''org/'' @ krs @ ''/krs-rozdzialy/'' @ ch,
                   req_headers = headers w\<rparr>]" for ch
    using call_tool_issued [of get fmt w "GetCompanyKrsDocumentation krs ch"] by simp
  have b: "fst (get_company_krs_documentation get w krs chapter) = Inr J"
    if "success_body (get (issued w)
          \<lparr>url = REJESTR_IO_BASE_API @ ''/'' @ ''org/'' @ krs @ ''/krs-rozdzialy/'' @ chapter,
             req_headers = headers w\<rparr>) = Some J"
    using call_tool_on_success [of get w ?i J fmt] that by simp
  have c: "fst (get_company_krs_documentation get w krs chapter) =
              Inr (PyDict [(''error'', PyStr (''An error occurred: '' @ d))])"
    if "failure_details (get (issued w)
          \<lparr>url = REJESTR_IO_BASE_API @ ''/'' @ ''org/'' @ krs @ ''/krs-rozdzialy/'' @ chapter,
             req_headers = headers w\<rparr>) = Some d"
    using call_tool_on_failure [of get w ?i d fmt] that by simp
  have d: "success_body (get (issued w)
                \<lparr>url = REJESTR_IO_BASE_API @ ''/'' @ ''org/'' @ krs @ ''/krs-rozdzialy/'' @ chapter,
                   req_headers = headers w\<rparr>) = Some v
            \<or> (\<exists>d. failure_details (get (issued w)
                  \<lparr>url = REJESTR_IO_BASE_API @ ''/'' @ ''org/'' @ krs @ ''/krs-rozdzialy/'' @ chapter,
                     req_headers = headers w\<rparr>) = Some d
                 \<and> v = PyDict [(''error'', PyStr (''An error occurred: '' @ d))])"
    if "fst (get_company_krs_documentation get w krs chapter) = Inr v"
    using call_tool_returns [of get fmt w ?i v] that by simp
  have a': "issued (snd (get_company_krs_documentation get w krs ''ogolny'')) =
       issued w @ [\<lparr>url = REJESTR_IO_BASE_API @ ''/'' @ ''org/'' @ krs @ ''/krs-rozdzialy/ogolny'',
                     req_headers = headers w\<rparr>]"
    using a [of "''ogolny''"] by simp
  from a [of "chapter"] a' b c d show ?thesis
    by (intro conjI impI)
qed

text \<open>
  The theorem at work on the chapter \<^verbatim>\<open>zarzad\<close>, which is not in the documented list:
  the request goes out with it, a 404 comes back as the error mapping, and a 200 comes
  back as its body.
\<close>

theorem krs_documentation_endpoint_witness:
  "map url (issued (snd (get_company_krs_documentation
       (answering 404 ''Client error 404 Not Found'' None) (load_module env_with_key)
       ''12345'' ''zarzad''))) = [''https://rejestr.io/api/v2/org/12345/krs-rozdzialy/zarzad'']
   \<and> fst (get_company_krs_documentation (answering 404 ''Client error 404 Not Found'' None)
            (load_module env_with_key) ''12345'' ''zarzad'') =
       Inr (PyDict [(''error'', PyStr ''An error occurred: Client error 404 Not Found'')])
   \<and> fst (get_company_krs_documentation (answering 200 ''OK'' (Some (PyDict [])))
            (load_module env_with_key) ''12345'' ''zarzad'') = Inr (PyDict [])"
proof -
  note refused =
    krs_documentation_endpoint [of "answering 404 ''Client error 404 Not Found'' None"
      "load_module env_with_key" "''12345''" "''zarzad''" PyNone "''Client error 404 Not Found''" PyNone]
  note served =
    krs_documentation_endpoint [of "answering 200 ''OK'' (Some (PyDict []))"
      "load_module env_with_key" "''12345''" "''zarzad''" "PyDict []" "[]" PyNone]
  have 1: "map url (issued (snd (get_company_krs_documentation
       (answering 404 ''Client error 404 Not Found'' None) (load_module env_with_key)
       ''12345'' ''zarzad''))) = [''https://rejestr.io/api/v2/org/12345/krs-rozdzialy/zarzad'']"
    using refused [THEN conjunct1] by (simp add: load_module_def REJESTR_IO_BASE_API_def)
  have 2: "fst (get_company_krs_documentation (answering 404 ''Client error 404 Not Found'' None)
            (load_module env_with_key) ''12345'' ''zarzad'') =
       Inr (PyDict [(''error'', PyStr ''An error occurred: Client error 404 Not Found'')])"
    using refused [THEN conjunct2, THEN conjunct2, THEN conjunct2, THEN conjunct1]
    by (simp add: answering_def)
  have 3: "fst (get_company_krs_documentation (answering 200 ''OK'' (Some (PyDict [])))
            (load_module env_with_key) ''12345'' ''zarzad'') = Inr (PyDict [])"
    using served [THEN conjunct2, THEN conjunct2, THEN conjunct1]
    by (simp add: answering_def)
  from 1 2 3 show ?thesis by (intro conjI)
qed

text \<open>
  Claim C7. \<open>get_financial_statement_in_json\<close> requests
  \<^verbatim>\<open>org/{krs}/krs-dokumenty/{doc_id}?format=json\<close> with both arguments as given, and the
  URL always ends in \<^verbatim>\<open>?format=json\<close>.
\<close>

theorem financial_statement_endpoint:
  "issued (snd (get_financial_statement_in_json get w krs doc_id)) =
     issued w @ [\<lparr>url = REJESTR_IO_BASE_API @ ''/'' @ ''org/'' @ krs @ ''/krs-dokumenty/'' @ doc_id
                         @ ''?format=json'',
                   req_headers = headers w\<rparr>]
   \<and> suffix ''?format=json'' (url (last (issued (snd (get_financial_statement_in_json get w krs doc_id)))))"
proof -
  have a: "issued (snd (get_financial_statement_in_json get w krs doc_id)) =
     issued w @ [\<lparr>url = REJESTR_IO_BASE_API @ ''/'' @ ''org/'' @ krs @ ''/krs-dokumenty/'' @ doc_id
                         @ ''?format=json'',
                   req_headers = headers w\<rparr>]"
    using call_tool_issued [of get fmt w "GetFinancialStatementInJson krs doc_id"] by simp
  have "suffix ''?format=json''
          (REJESTR_IO_BASE_API @ ''/'' @ ''org/'' @ krs @ ''/krs-dokumenty/'' @ doc_id @ ''?format=json'')"
    unfolding suffix_def by (metis append.assoc)
  with a show ?thesis by simp
qed

section \<open>The helper's failures and its result\<close>

text \<open>
  Claim C4. An exception raised by the client (a network failure among them) leaves the
  helper as it is; a response whose status is not 2xx makes the helper raise the
  \<open>HTTPStatusError\<close> carrying the message built for that response; a 2xx response with a
  JSON body makes it return the decoded body. In every case the helper hands exactly one
  request to the client: nothing is retried.
\<close>

theorem helper_outcome:
  "(get (issued w) \<lparr>url = REJESTR_IO_BASE_API @ ''/'' @ endpoint, req_headers = headers w\<rparr> = Inl e
      \<longrightarrow> fst (make_rejestr_io_request get w endpoint) = Inl e)
   \<and> (get (issued w) \<lparr>url = REJESTR_IO_BASE_API @ ''/'' @ endpoint, req_headers = headers w\<rparr> = Inr r
        \<and> \<not> (200 \<le> status_code r \<and> status_code r \<le> 299)
      \<longrightarrow> fst (make_rejestr_io_request get w endpoint) = Inl (HTTPStatusError (status_text r)))
   \<and> (get (issued w) \<lparr>url = REJESTR_IO_BASE_API @ ''/'' @ endpoint, req_headers = headers w\<rparr> = Inr r
        \<and> 200 \<le> status_code r \<and> status_code r \<le> 299 \<and> body r = Some J
      \<longrightarrow> fst (make_rejestr_io_request get w endpoint) = Inr J)
   \<and> issued (snd (make_rejestr_io_request get w endpoint)) =
       issued w @ [\<lparr>url = REJESTR_IO_BASE_API @ ''/'' @ endpoint, req_headers = headers w\<rparr>]"
  by (simp add: helper_result helper_issued raise_for_status_def json_def)

text \<open>
  The theorem at work: the network down, a 503 answer, and a 200 answer with the body 42.
\<close>

theorem helper_outcome_witness:
  "fst (make_rejestr_io_request offline (load_module env_with_key) ''konto/stan'') =
     Inl (RequestError ''All connection attempts failed'')
   \<and> fst (make_rejestr_io_request (answering 503 ''Server error 503 Service Unavailable'' None)
            (load_module env_with_key) ''konto/stan'') =
       Inl (HTTPStatusError ''Server error 503 Service Unavailable'')
   \<and> fst (make_rejestr_io_request (answering 200 ''OK'' (Some (PyInt 42)))
            (load_module env_with_key) ''konto/stan'') = Inr (PyInt 42)
   \<and> length (issued (snd (make_rejestr_io_request offline (load_module env_with_key) ''konto/stan''))) = 1"
  using helper_outcome [of offline "load_module env_with_key" "''konto/stan''"
          "RequestError ''All connection attempts failed''"]
        helper_outcome [of "answering 503 ''Server error 503 Service Unavailable'' None"
          "load_module env_with_key" "''konto/stan''" _
          "\<lparr>status_code = 503, status_text = ''Server error 503 Service Unavailable'', body = None\<rparr>"]
        helper_outcome [of "answering 200 ''OK'' (Some (PyInt 42))"
          "load_module env_with_key" "''konto/stan''" _
          "\<lparr>status_code = 200, status_text = ''OK'', body = Some (PyInt 42)\<rparr>" "PyInt 42"]
  by (simp add: offline_def answering_def load_module_def)

section \<open>Arguments with URL metacharacters\<close>

text \<open>
  Claim C10. Every tool puts its string arguments into the endpoint as they are, with no
  encoding or escaping: \<open>get_company_info_using_name\<close> always requests exactly
  \<^verbatim>\<open>org?nazwa={name}\<close>, and each tool requests its template with the arguments in place.
  So an argument with a URL metacharacter changes the shape of the target: the name
  \<^verbatim>\<open>a&b=c\<close> yields two query parameters, the registry number \<^verbatim>\<open>1/2\<close> yields two path
  segments where the template has one, and the document id \<^verbatim>\<open>7?a=b\<close> leaves no
  \<^verbatim>\<open>format=json\<close> parameter of its own.
\<close>

theorem arguments_not_encoded:
  "issued (snd (get_company_info_using_name get w name)) =
     issued w @ [\<lparr>url = REJESTR_IO_BASE_API @ ''/'' @ ''org?nazwa='' @ name, req_headers = headers w\<rparr>]
   \<and> issued (snd (call_tool get fmt w i)) =
       issued w @ [\<lparr>url = REJESTR_IO_BASE_API @ ''/'' @ template i, req_headers = headers w\<rparr>]
   \<and> query_parameters (url (last
         (issued (snd (get_company_info_using_name get (load_module getenv) ''a&b=c''))))) =
       [''nazwa=a'', ''b=c'']
   \<and> path_segments (url (last
         (issued (snd (get_company_krs_documentation get (load_module getenv) ''1/2'' ''ogolny''))))) =
       [''https:'', [], ''rejestr.io'', ''api'', ''v2'', ''org'', ''1'', ''2'', ''krs-rozdzialy'', ''ogolny'']
   \<and> query_parameters (url (last
         (issued (snd (get_financial_statement_in_json get (load_module getenv) ''12345'' ''7?a=b''))))) =
       [''a=b?format=json'']"
proof -
  have a: "issued (snd (get_company_info_using_name get w name)) =
     issued w @ [\<lparr>url = REJESTR_IO_BASE_API @ ''/'' @ ''org?nazwa='' @ name, req_headers = headers w\<rparr>]"
    for w name
    using call_tool_issued [of get fmt w "GetCompanyInfoUsingName name"] by simp
  have b: "issued (snd (get_company_krs_documentation get w krs ch)) =
     issued w @ [\<lparr>url = REJESTR_IO_BASE_API @ ''/'' @ ''org/'' @ krs @ ''/krs-rozdzialy/'' @ ch,
                   req_headers = headers w\<rparr>]" for w krs ch
    using call_tool_issued [of get fmt w "GetCompanyKrsDocumentation krs ch"] by simp
  have c: "issued (snd (get_financial_statement_in_json get w krs doc_id)) =
     issued w @ [\<lparr>url = REJESTR_IO_BASE_API @ ''/'' @ ''org/'' @ krs @ ''/krs-dokumenty/'' @ doc_id
                         @ ''?format=json'', req_headers = headers w\<rparr>]" for w krs doc_id
    using call_tool_issued [of get fmt w "GetFinancialStatementInJson krs doc_id"] by simp
  have 1: "query_parameters (url (last
         (issued (snd (get_company_info_using_name get (load_module getenv) ''a&b=c''))))) =
       [''nazwa=a'', ''b=c'']"
    by (simp add: a load_module_def REJESTR_IO_BASE_API_def query_parameters_def)
  have 2: "path_segments (url (last
         (issued (snd (get_company_krs_documentation get (load_module getenv) ''1/2'' ''ogolny''))))) =
       [''https:'', [], ''rejestr.io'', ''api'', ''v2'', ''org'', ''1'', ''2'', ''krs-rozdzialy'', ''ogolny'']"
    by (simp add: b load_module_def REJESTR_IO_BASE_API_def path_segments_def)
  have 3: "query_parameters (url (last
         (issued (snd (get_financial_statement_in_json get (load_module getenv) ''12345'' ''7?a=b''))))) =
       [''a=b?format=json'']"
    by (simp add: c load_module_def REJESTR_IO_BASE_API_def query_parameters_def)
  show ?thesis
    using a [of w name] call_tool_issued [of get fmt w i] 1 2 3 by simp
qed

section \<open>An absent credential\<close>

text \<open>
  Claim C8, as the code has it. When the environment has no value for the credential, no
  tool checks it: each call hands the client one request for its usual URL, with the
  header \<^verbatim>\<open>Authorization\<close> set to \<open>None\<close>. What the caller gets is decided by the client's
  answer alone: a decoded body is passed on as usual, an \<^verbatim>\<open>httpx.HTTPError\<close> (such as a
  401 of the remote service) becomes the usual error value, and any other exception
  raised by the client leaves the tool.
\<close>

theorem absent_credential:
  "getenv ''REJESTR_IO_API_KEY'' = None \<Longrightarrow>
   issued (snd (call_tool get fmt (load_module getenv) i)) =
     [\<lparr>url = REJESTR_IO_BASE_API @ ''/'' @ template i, req_headers = [(''Authorization'', None)]\<rparr>]
   \<and> (success_body (get []
         \<lparr>url = REJESTR_IO_BASE_API @ ''/'' @ template i, req_headers = [(''Authorization'', None)]\<rparr>) = Some J
       \<longrightarrow> fst (call_tool get fmt (load_module getenv) i) =
             Inr (if i = GetTokenAmount then PyStr (fmt J @ '' PLN'') else J))
   \<and> (failure_details (get []
         \<lparr>url = REJESTR_IO_BASE_API @ ''/'' @ template i, req_headers = [(''Authorization'', None)]\<rparr>) = Some d
       \<longrightarrow> fst (call_tool get fmt (load_module getenv) i) =
             Inr (if i = GetTokenAmount then PyStr (''An error occurred: '' @ d)
                  else PyDict [(''error'', PyStr (''An error occurred: '' @ d))]))
   \<and> (get [] \<lparr>url = REJESTR_IO_BASE_API @ ''/'' @ template i, req_headers = [(''Authorization'', None)]\<rparr> = Inl e
         \<and> \<not> is_HTTPError e
       \<longrightarrow> fst (call_tool get fmt (load_module getenv) i) = Inl e)"
proof -
  assume k: "getenv ''REJESTR_IO_API_KEY'' = None"
  let ?w = "load_module getenv"
  have h: "headers ?w = [(''Authorization'', None)]" and s: "issued ?w = []"
    using k by (simp_all add: load_module_def)
  show ?thesis
    using call_tool_issued [of get fmt ?w i] call_tool_on_success [of get ?w i J fmt]
      call_tool_on_failure [of get ?w i d fmt] call_tool_on_other_exception [of get ?w i e fmt]
    by (simp add: h s)
qed

text \<open>
  The theorem at work without a credential: a service answering 401 gives the error
  mapping, and a client that refuses the header gives its exception to the caller.
\<close>

theorem absent_credential_witness:
  "env_without_key ''REJESTR_IO_API_KEY'' = None
   \<and> issued (snd (call_tool (answering 401 ''Client error 401 Unauthorized'' None) fmt_sample
                  (load_module env_without_key) (GetCompanyInfoUsingKrs ''12345''))) =
       [\<lparr>url = ''https://rejestr.io/api/v2/org/12345'', req_headers = [(''Authorization'', None)]\<rparr>]
   \<and> fst (call_tool (answering 401 ''Client error 401 Unauthorized'' None) fmt_sample
            (load_module env_without_key) (GetCompanyInfoUsingKrs ''12345'')) =
       Inr (PyDict [(''error'', PyStr ''An error occurred: Client error 401 Unauthorized'')])
   \<and> fst (call_tool strict_client fmt_sample (load_module env_without_key)
            (GetCompanyInfoUsingKrs ''12345'')) =
       Inl (OtherException ''TypeError: Header value must be str or bytes'')"
  using absent_credential [of env_without_key "answering 401 ''Client error 401 Unauthorized'' None"
          fmt_sample "GetCompanyInfoUsingKrs ''12345''" _ "''Client error 401 Unauthorized''"]
        absent_credential [of env_without_key strict_client
          fmt_sample "GetCompanyInfoUsingKrs ''12345''" _ _
          "OtherException ''TypeError: Header value must be str or bytes''"]
  by (simp add: env_without_key_def answering_def strict_client_def REJESTR_IO_BASE_API_def)

text \<open>
  Claim C8 as it is written fails: with no credential and a client that refuses a header
  without a value, as the HTTP library does, the balance check ends in an exception that
  is raised locally, before anything is sent, and that the tool does not catch.
\<close>

theorem absent_credential_counterexample:
  "env_without_key ''REJESTR_IO_API_KEY'' = None
   \<and> fst (get_token_amount strict_client fmt_sample (load_module env_without_key)) =
       Inl (OtherException ''TypeError: Header value must be str or bytes'')"
  by (simp add: get_token_amount_def make_rejestr_io_request_def Let_def sample_defs)

section \<open>Independence of the tools\<close>

text \<open>
  Claim C9, as a property of two runs. Take two worlds with the same \<^verbatim>\<open>headers\<close> in which
  the client gives the same answer to the request of an invocation. Then the invocation
  returns the same result in both, whatever was requested before in either of them. A tool
  leaves \<^verbatim>\<open>headers\<close> as they are and adds only its own single request to the requests
  issued. So the result of a tool depends on its arguments, the credential and the answer
  to its own request only.
\<close>

theorem tools_independent:
  "headers w1 = headers w2 \<Longrightarrow>
   get (issued w1) \<lparr>url = REJESTR_IO_BASE_API @ ''/'' @ template i, req_headers = headers w1\<rparr> =
   get (issued w2) \<lparr>url = REJESTR_IO_BASE_API @ ''/'' @ template i, req_headers = headers w2\<rparr> \<Longrightarrow>
   fst (call_tool get fmt w1 i) = fst (call_tool get fmt w2 i)
   \<and> headers (snd (call_tool get fmt w1 i)) = headers w1
   \<and> issued (snd (call_tool get fmt w1 i)) =
       issued w1 @ [\<lparr>url = REJESTR_IO_BASE_API @ ''/'' @ template i, req_headers = headers w1\<rparr>]"
  by (simp add: call_tool_result helper_result call_tool_headers call_tool_issued)

text \<open>
  The theorem at work on two different tools with different arguments, run in either
  order: each gets the answer to its own request, the same as when it runs alone.
\<close>

theorem tools_independent_witness:
  "fst (call_tool echo fmt_sample
          (snd (call_tool echo fmt_sample (load_module env_with_key) (GetPersonData ''7'')))
          (GetCompanyInfoUsingKrs ''12345'')) =
     fst (call_tool echo fmt_sample (load_module env_with_key) (GetCompanyInfoUsingKrs ''12345''))
   \<and> fst (call_tool echo fmt_sample (load_module env_with_key) (GetCompanyInfoUsingKrs ''12345'')) =
       Inr (PyStr ''https://rejestr.io/api/v2/org/12345'')
   \<and> fst (call_tool echo fmt_sample
            (snd (call_tool echo fmt_sample (load_module env_with_key) (GetCompanyInfoUsingKrs ''12345'')))
            (GetPersonData ''7'')) =
       fst (call_tool echo fmt_sample (load_module env_with_key) (GetPersonData ''7''))
   \<and> fst (call_tool echo fmt_sample (load_module env_with_key) (GetPersonData ''7'')) =
       Inr (PyStr ''https://rejestr.io/api/v2/osoby/7'')"
proof -
  let ?w = "load_module env_with_key"
  let ?a = "GetCompanyInfoUsingKrs ''12345''"
  let ?b = "GetPersonData ''7''"
  have ha: "headers (snd (call_tool echo fmt_sample ?w ?b)) = headers ?w"
    by (rule call_tool_headers)
  have ea: "echo (issued (snd (call_tool echo fmt_sample ?w ?b)))
              \<lparr>url = REJESTR_IO_BASE_API @ ''/'' @ template ?a,
                 req_headers = headers (snd (call_tool echo fmt_sample ?w ?b))\<rparr> =
            echo (issued ?w)
              \<lparr>url = REJESTR_IO_BASE_API @ ''/'' @ template ?a, req_headers = headers ?w\<rparr>"
    by (simp add: echo_def)
  have 1: "fst (call_tool echo fmt_sample (snd (call_tool echo fmt_sample ?w ?b)) ?a) =
           fst (call_tool echo fmt_sample ?w ?a)"
    using tools_independent [of "snd (call_tool echo fmt_sample ?w ?b)" ?w echo ?a fmt_sample]
      ha ea by blast
  have hb: "headers (snd (call_tool echo fmt_sample ?w ?a)) = headers ?w"
    by (rule call_tool_headers)
  have eb: "echo (issued (snd (call_tool echo fmt_sample ?w ?a)))
              \<lparr>url = REJESTR_IO_BASE_API @ ''/'' @ template ?b,
                 req_headers = headers (snd (call_tool echo fmt_sample ?w ?a))\<rparr> =
            echo (issued ?w)
              \<lparr>url = REJESTR_IO_BASE_API @ ''/'' @ template ?b, req_headers = headers ?w\<rparr>"
    by (simp add: echo_def)
  have 2: "fst (call_tool echo fmt_sample (snd (call_tool echo fmt_sample ?w ?a)) ?b) =
           fst (call_tool echo fmt_sample ?w ?b)"
    using tools_independent [of "snd (call_tool echo fmt_sample ?w ?a)" ?w echo ?b fmt_sample]
      hb eb by blast
  have 3: "fst (call_tool echo fmt_sample ?w ?a) = Inr (PyStr ''https://rejestr.io/api/v2/org/12345'')"
    by (simp add: tool_defs make_rejestr_io_request_def Let_def raise_for_status_def json_def
          sample_defs)
  have 4: "fst (call_tool echo fmt_sample ?w ?b) = Inr (PyStr ''https://rejestr.io/api/v2/osoby/7'')"
    by (simp add: tool_defs make_rejestr_io_request_def Let_def raise_for_status_def json_def
          sample_defs)
  from 1 2 3 4 show ?thesis by blast
qed

end
